theory Spec2Isabelle
  imports Main "HOL-Library.Word"
begin

section \<open>JavaScript values and promises\<close>

text \<open>
  The node entry point of the JSON-RPC library passes error values of type \<open>any\<close> around
  and tests them for truthiness (\<open>if (error)\<close>), so errors are modelled as a small
  universe of JavaScript values together with the language's truthiness test.
\<close>

datatype jsval =
    JUndefined
  | JNull
  | JBool bool
  | JNum int
  | JStr string
  | JError string
  | JFunction string

fun truthy :: "jsval \<Rightarrow> bool" where
  "truthy JUndefined = False"
| "truthy JNull = False"
| "truthy (JBool b) = b"
| "truthy (JNum n) = (n \<noteq> 0)"
| "truthy (JStr s) = (s \<noteq> [])"
| "truthy (JError m) = True"
| "truthy (JFunction f) = True"

text \<open>
  A promise is pending until it is settled, and it is settled at most once: calling
  \<open>resolve\<close> or \<open>reject\<close> on a settled promise changes nothing.
\<close>

datatype 'a promise = Pending | Fulfilled 'a | Rejected jsval

fun resolve :: "'a \<Rightarrow> 'a promise \<Rightarrow> 'a promise" where
  "resolve v Pending = Fulfilled v"
| "resolve v (Fulfilled u) = Fulfilled u"
| "resolve v (Rejected e) = Rejected e"

fun reject :: "jsval \<Rightarrow> 'a promise \<Rightarrow> 'a promise" where
  "reject e Pending = Rejected e"
| "reject e (Fulfilled u) = Fulfilled u"
| "reject e (Rejected d) = Rejected d"

datatype Message = Message (jsonrpc: string)

section \<open>Process-backed channels\<close>

subsection \<open>The notifications of a channel\<close>

text \<open>
  \<open>AbstractMessageReader\<close> and \<open>AbstractMessageWriter\<close> live in the common part of the
  library. What a channel has fired is kept as a log, oldest notification first: an error
  notification carries the error, the message (if any) and the error count (if any).
\<close>

type_synonym error_notification = "jsval \<times> Message option \<times> nat option"

record IPCMessageReader =
  reader_onError :: "error_notification list"
  reader_onClose :: nat
  messageListeners :: nat

record IPCMessageWriter =
  errorCount :: nat
  writer_onError :: "error_notification list"
  writer_onClose :: nat

text \<open>Modelled from the spec: \<open>AbstractMessageReader.fireError\<close> and \<open>fireClose\<close>, which
  are not part of the node entry point; they deliver the error value as it is given, and
  one close notification for each call.\<close>

definition reader_fireError :: "jsval \<Rightarrow> IPCMessageReader \<Rightarrow> IPCMessageReader" where
  "reader_fireError error r = r\<lparr>reader_onError := reader_onError r @ [(error, None, None)]\<rparr>"

definition reader_fireClose :: "IPCMessageReader \<Rightarrow> IPCMessageReader" where
  "reader_fireClose r = r\<lparr>reader_onClose := reader_onClose r + 1\<rparr>"

text \<open>Modelled from the spec: \<open>AbstractMessageWriter.fireError\<close> and \<open>fireClose\<close>, which
  are not part of the node entry point; the error notification carries
  \<open>(error, message, count)\<close> as given.\<close>

definition writer_fireError ::
  "jsval \<Rightarrow> Message option \<Rightarrow> nat option \<Rightarrow> IPCMessageWriter \<Rightarrow> IPCMessageWriter" where
  "writer_fireError error msg count w =
     w\<lparr>writer_onError := writer_onError w @ [(error, msg, count)]\<rparr>"

definition writer_fireClose :: "IPCMessageWriter \<Rightarrow> IPCMessageWriter" where
  "writer_fireClose w = w\<lparr>writer_onClose := writer_onClose w + 1\<rparr>"

subsection \<open>Construction and the forwarding of native events\<close>

text \<open>
  The constructors subscribe to the endpoint's \<open>error\<close> and \<open>close\<close> events. The
  endpoint's event emitter calls the subscribed handlers; an event with another name
  reaches no handler of the constructor.
\<close>

datatype native_event = NativeError jsval | NativeClose | NativeOther string

definition IPCMessageReader_new :: IPCMessageReader where
  "IPCMessageReader_new = \<lparr>reader_onError = [], reader_onClose = 0, messageListeners = 0\<rparr>"

definition IPCMessageWriter_new :: IPCMessageWriter where
  "IPCMessageWriter_new = \<lparr>errorCount = 0, writer_onError = [], writer_onClose = 0\<rparr>"

text \<open>\<open>eventEmitter.on('error', (error) => this.fireError(error))\<close> and
  \<open>eventEmitter.on('close', () => this.fireClose())\<close> of the reader.\<close>

fun IPCMessageReader_emit :: "native_event \<Rightarrow> IPCMessageReader \<Rightarrow> IPCMessageReader" where
  "IPCMessageReader_emit (NativeError error) r = reader_fireError error r"
| "IPCMessageReader_emit NativeClose r = reader_fireClose r"
| "IPCMessageReader_emit (NativeOther name) r = r"

definition listen :: "IPCMessageReader \<Rightarrow> IPCMessageReader" where
  "listen r = r\<lparr>messageListeners := messageListeners r + 1\<rparr>"

text \<open>\<open>eventEmitter.on('error', (error) => this.fireError(error))\<close> and
  \<open>eventEmitter.on('close', () => this.fireClose)\<close> of the writer: the close handler
  evaluates the member \<open>this.fireClose\<close> and does not call it.\<close>

fun IPCMessageWriter_emit :: "native_event \<Rightarrow> IPCMessageWriter \<Rightarrow> IPCMessageWriter" where
  "IPCMessageWriter_emit (NativeError error) w = writer_fireError error None None w"
| "IPCMessageWriter_emit NativeClose w = w"
| "IPCMessageWriter_emit (NativeOther name) w = w"

subsection \<open>Writing\<close>

text \<open>
  The endpoint either has no \<open>send\<close> function, or it has one; a call of it returns or
  throws. The completion callback handed to \<open>send\<close> is called later by the runtime, with
  an error or with a falsy value.
\<close>

datatype send_outcome = SendReturns | SendThrows jsval

record process =
  send :: "(Message \<Rightarrow> send_outcome) option"

definition handleError :: "jsval \<Rightarrow> Message \<Rightarrow> IPCMessageWriter \<Rightarrow> IPCMessageWriter" where
  "handleError error msg w =
     (let w1 = w\<lparr>errorCount := errorCount w + 1\<rparr>
      in writer_fireError error (Some msg) (Some (errorCount w1)) w1)"

text \<open>The completion callback that \<open>write\<close> hands to the native send.\<close>

definition sendCallback :: "jsval \<Rightarrow> Message \<Rightarrow> IPCMessageWriter \<Rightarrow> IPCMessageWriter" where
  "sendCallback error msg w =
     (if truthy error
      then handleError error msg (w\<lparr>errorCount := errorCount w + 1\<rparr>)
      else w\<lparr>errorCount := 0\<rparr>)"

text \<open>
  The result of \<open>write\<close>: the promise it returns, the native sends it attempted, the
  messages whose completion callback is now in the hands of the runtime, and the writer.
\<close>

record write_result =
  returned :: "unit promise"
  sends :: "Message list"
  callbacks :: "Message list"
  writer :: IPCMessageWriter

definition IPCMessageWriter_write :: "process \<Rightarrow> Message \<Rightarrow> IPCMessageWriter \<Rightarrow> write_result" where
  "IPCMessageWriter_write p msg w =
     (case send p of
        None \<Rightarrow> \<lparr>returned = Fulfilled (), sends = [], callbacks = [], writer = w\<rparr>
      | Some f \<Rightarrow>
          (case f msg of
             SendReturns \<Rightarrow>
               \<lparr>returned = Fulfilled (), sends = [msg], callbacks = [msg], writer = w\<rparr>
           | SendThrows error \<Rightarrow>
               \<lparr>returned = Rejected error, sends = [msg], callbacks = [],
                writer = handleError error msg w\<rparr>))"

text \<open>
  What can happen to a writer, one step at a time: a write, the completion of an earlier
  send, or a native event of the endpoint.
\<close>

datatype writer_step =
    Write process Message
  | Completion jsval Message
  | Native native_event

fun writer_do :: "writer_step \<Rightarrow> IPCMessageWriter \<Rightarrow> IPCMessageWriter" where
  "writer_do (Write p msg) w = writer (IPCMessageWriter_write p msg w)"
| "writer_do (Completion error msg) w = sendCallback error msg w"
| "writer_do (Native ev) w = IPCMessageWriter_emit ev w"

definition writer_run :: "writer_step list \<Rightarrow> IPCMessageWriter \<Rightarrow> IPCMessageWriter" where
  "writer_run steps w = fold writer_do steps w"

text \<open>Endpoints used in examples: one without a send function, one whose send returns,
  one whose send throws.\<close>

definition noSendProcess :: process where
  "noSendProcess = \<lparr>send = None\<rparr>"

fun acceptingSend :: "Message \<Rightarrow> send_outcome" where
  "acceptingSend msg = SendReturns"

fun throwingSend :: "Message \<Rightarrow> send_outcome" where
  "throwingSend msg = SendThrows (JError ''ERR_IPC_CHANNEL_CLOSED'')"

definition acceptingProcess :: process where
  "acceptingProcess = \<lparr>send = Some acceptingSend\<rparr>"

definition throwingProcess :: process where
  "throwingProcess = \<lparr>send = Some throwingSend\<rparr>"

section \<open>Sockets and stream-backed channels\<close>

text \<open>
  A transport address is a pipe path or a port with a host. A socket of the runtime is
  known by its handle; one made by \<open>createConnection\<close> also records where it dials.
  Destroying a socket closes its handle unless the socket is destroyed already; the
  runtime documents a repeated \<open>destroy\<close> as a no-op. \<open>destroyCalls\<close> counts the calls,
  \<open>teardowns\<close> the times the handle was really closed.
\<close>

datatype address = PipePath string | TcpPort nat string

record Socket =
  handle :: nat
  remote :: "address option"
  destroyed :: bool
  destroyCalls :: nat
  teardowns :: nat

definition acceptedSocket :: "nat \<Rightarrow> Socket" where
  "acceptedSocket h =
     \<lparr>handle = h, remote = None, destroyed = False, destroyCalls = 0, teardowns = 0\<rparr>"

definition createConnection :: "nat \<Rightarrow> address \<Rightarrow> Socket" where
  "createConnection h a =
     \<lparr>handle = h, remote = Some a, destroyed = False, destroyCalls = 0, teardowns = 0\<rparr>"

definition destroy :: "Socket \<Rightarrow> Socket" where
  "destroy s =
     (if destroyed s then s\<lparr>destroyCalls := destroyCalls s + 1\<rparr>
      else s\<lparr>destroyed := True, destroyCalls := destroyCalls s + 1,
             teardowns := teardowns s + 1\<rparr>)"

record SocketMessageReader =
  reader_socket :: Socket
  reader_encoding :: string

record SocketMessageWriter =
  socket :: Socket
  writer_options :: "string option"
  emittersDisposed :: bool

text \<open>\<open>constructor(socket, encoding = 'utf-8')\<close>: a missing encoding is \<open>utf-8\<close>.\<close>

definition defaultEncoding :: "string option \<Rightarrow> string" where
  "defaultEncoding encoding = (case encoding of None \<Rightarrow> ''utf-8'' | Some e \<Rightarrow> e)"

definition SocketMessageReader_new :: "Socket \<Rightarrow> string option \<Rightarrow> SocketMessageReader" where
  "SocketMessageReader_new sock encoding =
     \<lparr>reader_socket = sock, reader_encoding = defaultEncoding encoding\<rparr>"

definition SocketMessageWriter_new :: "Socket \<Rightarrow> string option \<Rightarrow> SocketMessageWriter" where
  "SocketMessageWriter_new sock options =
     \<lparr>socket = sock, writer_options = options, emittersDisposed = False\<rparr>"

text \<open>Modelled from the spec: \<open>AbstractMessageWriter.dispose\<close>, the \<open>super.dispose()\<close> of
  the stream-backed writer, which is not part of the node entry point; it disposes the
  writer's error and close emitters, may be repeated, and does not throw.\<close>

definition super_dispose :: "SocketMessageWriter \<Rightarrow> jsval + SocketMessageWriter" where
  "super_dispose w = Inr (w\<lparr>emittersDisposed := True\<rparr>)"

text \<open>\<open>dispose\<close>: \<open>super.dispose(); this.socket.destroy();\<close>. A throw of the first
  statement would skip the second.\<close>

definition dispose :: "SocketMessageWriter \<Rightarrow> jsval + SocketMessageWriter" where
  "dispose w =
     (case super_dispose w of
        Inl error \<Rightarrow> Inl error
      | Inr w1 \<Rightarrow> Inr (w1\<lparr>socket := destroy (socket w1)\<rparr>))"

text \<open>Disposing again what a first \<open>dispose\<close> returned.\<close>

definition dispose_twice :: "SocketMessageWriter \<Rightarrow> jsval + SocketMessageWriter" where
  "dispose_twice w = (case dispose w of Inl error \<Rightarrow> Inl error | Inr w1 \<Rightarrow> dispose w1)"

section \<open>Transport bootstrap\<close>

type_synonym channel = "SocketMessageReader \<times> SocketMessageWriter"

text \<open>
  The calls that the bootstrap code makes on the \<open>net\<close> module, on the server, on the
  channel constructors and on the callbacks of its two promises, in program order.
\<close>

datatype net_call =
    CreateServer
  | OnError
  | Listen address
  | RemoveErrorListener
  | ServerClose
  | NewSocketMessageReader nat
  | NewSocketMessageWriter nat
  | ConnectResolve
  | ConnectReject jsval
  | OuterResolve
  | OuterReject jsval
  | CreateConnection address

text \<open>
  The listening server of the runtime: it is binding after \<open>listen\<close>, bound once the
  bind has succeeded, stopped once \<open>close\<close> has been called, failed when the bind has
  failed. The only listener that the code registers for the server's \<open>error\<close> event is
  the \<open>reject\<close> of the outer promise.
\<close>

datatype server_phase = Binding | Bound | Stopped | Failed

datatype server_listener = RejectOuter

datatype PipeTransport = PipeTransport

record client_transport =
  transport_encoding :: string
  connected :: "channel promise"
  outer :: "PipeTransport promise"
  errorListeners :: "server_listener list"
  phase :: server_phase
  calls :: "net_call list"
  uncaught :: "jsval list"

text \<open>
  The synchronous part of \<open>createClientPipeTransport\<close>: the promise \<open>connected\<close> is
  created pending and only its \<open>resolve\<close> is kept; the server is created with
  the connection listener, \<open>reject\<close> is registered for \<open>error\<close>, and \<open>listen\<close> is called
  with the pipe name.
\<close>

definition createClientPipeTransport :: "string \<Rightarrow> string option \<Rightarrow> client_transport" where
  "createClientPipeTransport pipeName encoding =
     \<lparr>transport_encoding = defaultEncoding encoding,
      connected = Pending,
      outer = Pending,
      errorListeners = [RejectOuter],
      phase = Binding,
      calls = [CreateServer, OnError, Listen (PipePath pipeName)],
      uncaught = []\<rparr>"

text \<open>\<open>createClientSocketTransport\<close> is the same with
  \<open>server.listen(port, '127.0.0.1', ...)\<close>.\<close>

definition createClientSocketTransport :: "nat \<Rightarrow> string option \<Rightarrow> client_transport" where
  "createClientSocketTransport port encoding =
     \<lparr>transport_encoding = defaultEncoding encoding,
      connected = Pending,
      outer = Pending,
      errorListeners = [RejectOuter],
      phase = Binding,
      calls = [CreateServer, OnError, Listen (TcpPort port ''127.0.0.1'')],
      uncaught = []\<rparr>"

text \<open>The connection listener given to \<open>createServer\<close>:
  \<open>server.close(); connectResolve([new SocketMessageReader(socket, encoding),
  new SocketMessageWriter(socket, encoding)]);\<close>\<close>

definition connectionListener :: "Socket \<Rightarrow> client_transport \<Rightarrow> client_transport" where
  "connectionListener sock s =
     (let s1 = s\<lparr>phase := Stopped, calls := calls s @ [ServerClose]\<rparr>;
          reader = SocketMessageReader_new sock (Some (transport_encoding s1));
          s2 = s1\<lparr>calls := calls s1 @ [NewSocketMessageReader (handle sock)]\<rparr>;
          writer = SocketMessageWriter_new sock (Some (transport_encoding s2));
          s3 = s2\<lparr>calls := calls s2 @ [NewSocketMessageWriter (handle sock)]\<rparr>
      in s3\<lparr>connected := resolve (reader, writer) (connected s3),
            calls := calls s3 @ [ConnectResolve]\<rparr>)"

text \<open>The callback given to \<open>server.listen\<close>:
  \<open>server.removeListener('error', reject); resolve({ onConnected: () => connected });\<close>
  \<open>removeListener\<close> removes the most recently added instance of the listener.\<close>

definition removeListener :: "server_listener \<Rightarrow> server_listener list \<Rightarrow> server_listener list" where
  "removeListener l ls = rev (remove1 l (rev ls))"

definition listeningListener :: "client_transport \<Rightarrow> client_transport" where
  "listeningListener s =
     (let s1 = s\<lparr>errorListeners := removeListener RejectOuter (errorListeners s),
                 calls := calls s @ [RemoveErrorListener]\<rparr>
      in s1\<lparr>outer := resolve PipeTransport (outer s1), calls := calls s1 @ [OuterResolve]\<rparr>)"

text \<open>\<open>onConnected: () => { return connected; }\<close>\<close>

definition onConnected :: "client_transport \<Rightarrow> channel promise" where
  "onConnected s = connected s"

text \<open>
  An \<open>error\<close> event of the server calls the listeners registered for it, in the order of
  registration; with no listener registered the runtime throws the error, uncaught.
\<close>

fun callListener :: "jsval \<Rightarrow> server_listener \<Rightarrow> client_transport \<Rightarrow> client_transport" where
  "callListener error RejectOuter s =
     s\<lparr>outer := reject error (outer s), calls := calls s @ [OuterReject error]\<rparr>"

definition emitError :: "jsval \<Rightarrow> client_transport \<Rightarrow> client_transport" where
  "emitError error s =
     (if errorListeners s = [] then s\<lparr>uncaught := uncaught s @ [error]\<rparr>
      else fold (callListener error) (errorListeners s) s)"

text \<open>
  The events of the server. The runtime reports \<open>listening\<close> once, when the bind
  succeeds; it hands over a connection only while the server is bound and not closed;
  an error while binding is the failure of the bind. The code registers nothing for the
  server's \<open>close\<close> event.
\<close>

datatype server_event = Listening | Error jsval | Connection Socket | Close

fun deliver :: "server_event \<Rightarrow> client_transport \<Rightarrow> client_transport" where
  "deliver Listening s =
     (if phase s = Binding then listeningListener (s\<lparr>phase := Bound\<rparr>) else s)"
| "deliver (Error error) s =
     emitError error (if phase s = Binding then s\<lparr>phase := Failed\<rparr> else s)"
| "deliver (Connection sock) s =
     (if phase s = Bound then connectionListener sock s else s)"
| "deliver Close s = s"

definition run :: "server_event list \<Rightarrow> client_transport \<Rightarrow> client_transport" where
  "run evs s = fold deliver evs s"

text \<open>The server role dials out and returns the channel at once:
  \<open>createConnection(pipeName)\<close>, or \<open>createConnection(port, '127.0.0.1')\<close>. The handle
  of the new socket is the runtime's choice.\<close>

definition createServerPipeTransport ::
  "nat \<Rightarrow> string \<Rightarrow> string option \<Rightarrow> net_call list \<times> channel" where
  "createServerPipeTransport h pipeName encoding =
     (let sock = createConnection h (PipePath pipeName)
      in ([CreateConnection (PipePath pipeName),
           NewSocketMessageReader (handle sock), NewSocketMessageWriter (handle sock)],
          (SocketMessageReader_new sock (Some (defaultEncoding encoding)),
           SocketMessageWriter_new sock (Some (defaultEncoding encoding)))))"

definition createServerSocketTransport ::
  "nat \<Rightarrow> nat \<Rightarrow> string option \<Rightarrow> net_call list \<times> channel" where
  "createServerSocketTransport h port encoding =
     (let sock = createConnection h (TcpPort port ''127.0.0.1'')
      in ([CreateConnection (TcpPort port ''127.0.0.1''),
           NewSocketMessageReader (handle sock), NewSocketMessageWriter (handle sock)],
          (SocketMessageReader_new sock (Some (defaultEncoding encoding)),
           SocketMessageWriter_new sock (Some (defaultEncoding encoding)))))"

text \<open>The hosts and ports named in the calls that bind or dial a socket address.\<close>

fun hostOf :: "net_call \<Rightarrow> string list" where
  "hostOf (Listen (TcpPort port host)) = [host]"
| "hostOf (CreateConnection (TcpPort port host)) = [host]"
| "hostOf c = []"

fun portOf :: "net_call \<Rightarrow> nat list" where
  "portOf (Listen (TcpPort port host)) = [port]"
| "portOf (CreateConnection (TcpPort port host)) = [port]"
| "portOf c = []"

definition hosts :: "net_call list \<Rightarrow> string list" where
  "hosts cs = concat (map hostOf cs)"

definition ports :: "net_call list \<Rightarrow> nat list" where
  "ports cs = concat (map portOf cs)"

text \<open>How many stream-backed writers, and so channels, the code has constructed; how
  often the resolve callback of \<open>connected\<close> was called is
  \<open>count_list cs ConnectResolve\<close>.\<close>

fun isNewWriter :: "net_call \<Rightarrow> bool" where
  "isNewWriter (NewSocketMessageWriter h) = True"
| "isNewWriter c = False"

definition channelsMade :: "net_call list \<Rightarrow> nat" where
  "channelsMade cs = length (filter isNewWriter cs)"

fun isFulfilled :: "'a promise \<Rightarrow> bool" where
  "isFulfilled (Fulfilled v) = True"
| "isFulfilled p = False"

fun isRejected :: "'a promise \<Rightarrow> bool" where
  "isRejected (Rejected e) = True"
| "isRejected p = False"

fun isConnection :: "server_event \<Rightarrow> bool" where
  "isConnection (Connection sock) = True"
| "isConnection ev = False"

fun isConnectReject :: "net_call \<Rightarrow> bool" where
  "isConnectReject (ConnectReject e) = True"
| "isConnectReject c = False"

text \<open>
  The state of a bootstrap before and after its one connection: until the server is
  stopped, \<open>connected\<close> is pending and no channel has been made; once it is stopped,
  \<open>connected\<close> is fulfilled and exactly one channel has been made. The reject callback
  of \<open>connected\<close> has never been called.
\<close>

definition once :: "client_transport \<Rightarrow> bool" where
  "once s =
     ((if phase s = Stopped
       then isFulfilled (connected s) \<and> channelsMade (calls s) = 1
            \<and> count_list (calls s) ConnectResolve = 1
       else connected s = Pending \<and> channelsMade (calls s) = 0
            \<and> count_list (calls s) ConnectResolve = 0)
      \<and> filter isConnectReject (calls s) = [])"

section \<open>Connection factory\<close>

text \<open>
  The factory looks at its arguments as plain objects: a member that is absent reads as
  \<open>undefined\<close>.
\<close>

type_synonym jsobject = "(string \<times> jsval) list"

definition getMember :: "jsobject \<Rightarrow> string \<Rightarrow> jsval" where
  "getMember obj name = (case map_of obj name of None \<Rightarrow> JUndefined | Some v \<Rightarrow> v)"

definition isMessageReader :: "jsobject \<Rightarrow> bool" where
  "isMessageReader v = (getMember v ''listen'' \<noteq> JUndefined \<and> getMember v ''read'' = JUndefined)"

definition isMessageWriter :: "jsobject \<Rightarrow> bool" where
  "isMessageWriter v = (getMember v ''write'' \<noteq> JUndefined \<and> getMember v ''end'' = JUndefined)"

text \<open>A reader is the given object itself or \<open>new StreamMessageReader(input)\<close>; a writer
  is the given object itself or \<open>new StreamMessageWriter(output)\<close>.\<close>

datatype MessageReader = ReaderObject jsobject | StreamMessageReader jsobject

datatype MessageWriter = WriterObject jsobject | StreamMessageWriter jsobject

datatype Logger = NullLogger | Logger string

text \<open>Modelled from the spec: the types \<open>ConnectionStrategy\<close> and \<open>ConnectionOptions\<close> and
  the test \<open>ConnectionStrategy.is\<close>, which are declared in the common part of the library
  and not in the node entry point. A strategy is known by its policy; the options
  structure has the fields \<open>connectionStrategy\<close> and \<open>maxRestartConsecutiveCrashes\<close>; the
  argument \<open>options\<close> is a bare strategy or a full options structure, and
  \<open>ConnectionStrategy.is\<close> holds of a bare strategy only.\<close>

datatype ConnectionStrategy = ConnectionStrategy string

record ConnectionOptions =
  connectionStrategy :: "ConnectionStrategy option"
  maxRestartConsecutiveCrashes :: "nat option"

datatype options_arg = BareStrategy ConnectionStrategy | FullOptions ConnectionOptions

fun ConnectionStrategy_is :: "options_arg option \<Rightarrow> bool" where
  "ConnectionStrategy_is (Some (BareStrategy st)) = True"
| "ConnectionStrategy_is options = False"

text \<open>\<open>{ connectionStrategy: options } as ConnectionOptions\<close>\<close>

fun wrapStrategy :: "options_arg option \<Rightarrow> options_arg option" where
  "wrapStrategy (Some (BareStrategy st)) =
     Some (FullOptions \<lparr>connectionStrategy = Some st, maxRestartConsecutiveCrashes = None\<rparr>)"
| "wrapStrategy options = options"

text \<open>
  \<open>createMessageConnection\<close> of the node entry point; \<open>create\<close> is the connection
  constructor of the common part, to which it delegates.
\<close>

definition createMessageConnection ::
  "(MessageReader \<Rightarrow> MessageWriter \<Rightarrow> Logger \<Rightarrow> options_arg option \<Rightarrow> 'c) \<Rightarrow>
   jsobject \<Rightarrow> jsobject \<Rightarrow> Logger option \<Rightarrow> options_arg option \<Rightarrow> 'c" where
  "createMessageConnection create input output logger options =
     (let logger1 = (case logger of None \<Rightarrow> NullLogger | Some l \<Rightarrow> l);
          reader = (if isMessageReader input then ReaderObject input
                    else StreamMessageReader input);
          writer = (if isMessageWriter output then WriterObject output
                    else StreamMessageWriter output);
          options1 = (if ConnectionStrategy_is options then wrapStrategy options else options)
      in create reader writer logger1 options1)"

text \<open>
  \<open>createProtocolConnection\<close> of the protocol package; \<open>create\<close> is the
  \<open>createMessageConnection\<close> that the package imports.
\<close>

definition createProtocolConnection ::
  "(jsobject \<Rightarrow> jsobject \<Rightarrow> Logger option \<Rightarrow> options_arg option \<Rightarrow> 'c) \<Rightarrow>
   jsobject \<Rightarrow> jsobject \<Rightarrow> Logger option \<Rightarrow> options_arg option \<Rightarrow> 'c" where
  "createProtocolConnection create input output logger options =
     (let options1 = (if ConnectionStrategy_is options then wrapStrategy options else options)
      in create input output logger options1)"

text \<open>A connection that records what its constructor was given.\<close>

datatype MessageConnection =
  MessageConnection MessageReader MessageWriter Logger "options_arg option"

section \<open>Pipe names\<close>

text \<open>
  \<open>randomBytes(n)\<close> takes \<open>n\<close> bytes from the entropy source of the runtime, and
  \<open>toString('hex')\<close> renders each byte as two lower-case hexadecimal digits.
\<close>

type_synonym byte = "8 word"

definition randomBytes :: "(nat \<Rightarrow> byte) \<Rightarrow> nat \<Rightarrow> byte list" where
  "randomBytes entropy n = map entropy [0..<n]"

definition hexDigit :: "nat \<Rightarrow> char" where
  "hexDigit n = ''0123456789abcdef'' ! (n mod 16)"

definition hexByte :: "byte \<Rightarrow> string" where
  "hexByte b = [hexDigit (unat b div 16), hexDigit (unat b mod 16)]"

definition toHex :: "byte list \<Rightarrow> string" where
  "toHex bs = concat (map hexByte bs)"

definition isHexChar :: "char \<Rightarrow> bool" where
  "isHexChar c = (c \<in> set ''0123456789abcdef'')"

text \<open>
  \<open>path.join\<close> of the runtime on a platform other than win32: the non-empty arguments
  are joined with a slash and the result is normalised, which drops empty and \<open>.\<close>
  segments, resolves \<open>..\<close> segments, and keeps a leading and a trailing slash.
\<close>

fun splitSlash :: "string \<Rightarrow> string list" where
  "splitSlash [] = [[]]"
| "splitSlash (c # cs) =
     (if c = CHR ''/'' then [] # splitSlash cs
      else (case splitSlash cs of [] \<Rightarrow> [[c]] | seg # segs \<Rightarrow> (c # seg) # segs))"

fun joinSlash :: "string list \<Rightarrow> string" where
  "joinSlash [] = []"
| "joinSlash [seg] = seg"
| "joinSlash (seg # segs) = seg @ CHR ''/'' # joinSlash segs"

fun normalizeSegments :: "bool \<Rightarrow> string list \<Rightarrow> string list \<Rightarrow> string list" where
  "normalizeSegments allowAboveRoot res [] = rev res"
| "normalizeSegments allowAboveRoot res (seg # segs) =
     (if seg = [] \<or> seg = ''.'' then normalizeSegments allowAboveRoot res segs
      else if seg = ''..'' then
        (case res of
           [] \<Rightarrow> normalizeSegments allowAboveRoot (if allowAboveRoot then [''..''] else []) segs
         | r # rs \<Rightarrow>
             if r = ''..'' then normalizeSegments allowAboveRoot (''..'' # res) segs
             else normalizeSegments allowAboveRoot rs segs)
      else normalizeSegments allowAboveRoot (seg # res) segs)"

definition normalize :: "string \<Rightarrow> string" where
  "normalize path =
     (if path = [] then ''.''
      else
        (let isAbsolute = (hd path = CHR ''/'');
             trailingSeparator = (last path = CHR ''/'');
             p = joinSlash (normalizeSegments (\<not> isAbsolute) [] (splitSlash path))
         in if p = [] then (if isAbsolute then ''/'' else if trailingSeparator then ''./'' else ''.'')
            else (let q = (if trailingSeparator then p @ ''/'' else p)
                  in if isAbsolute then CHR ''/'' # q else q)))"

definition path_join :: "string list \<Rightarrow> string" where
  "path_join paths =
     (let joined = joinSlash (filter (\<lambda>p. p \<noteq> []) paths)
      in if joined = [] then ''.'' else normalize joined)"

text \<open>
  What \<open>generateRandomPipeName\<close> reads from its surroundings: \<open>process.platform\<close>,
  \<open>os.tmpdir()\<close> and the entropy source.
\<close>

record environment =
  platform :: string
  tmpdir :: string
  entropy :: "nat \<Rightarrow> byte"

text \<open>The directory of named pipes: two backslashes, a dot, a backslash, \<open>pipe\<close> and
  a backslash; the backslash is the character \<open>0x5C\<close>.\<close>

definition pipeDir :: string where
  "pipeDir = [CHR 0x5C, CHR 0x5C, CHR ''.'', CHR 0x5C] @ ''pipe'' @ [CHR 0x5C]"

definition generateRandomPipeName :: "environment \<Rightarrow> string" where
  "generateRandomPipeName env =
     (let randomSuffix = toHex (randomBytes (entropy env) 21)
      in if platform env = ''win32''
         then pipeDir @ ''vscode-jsonrpc-'' @ randomSuffix @ ''-sock''
         else path_join [tmpdir env, ''vscode-'' @ randomSuffix @ ''.sock''])"

text \<open>
  The two forms of a pipe name in the words of the specification, for a random part of
  \<open>n\<close> hexadecimal characters: the directory of named pipes, an application prefix, a
  dash, the random part and \<open>-sock\<close>; or the temporary directory, a slash, an
  application prefix, a dash, the random part and \<open>.sock\<close>. The application prefix is
  what stands between the directory and the dash before the random part.
\<close>

definition windowsForm :: "nat \<Rightarrow> string \<Rightarrow> bool" where
  "windowsForm n name =
     (let k = length name
      in length pipeDir + 1 + n + 5 \<le> k
         \<and> take (length pipeDir) name = pipeDir
         \<and> drop (k - 5) name = ''-sock''
         \<and> list_all isHexChar (take n (drop (k - 5 - n) name))
         \<and> name ! (k - 5 - n - 1) = CHR ''-'')"

definition posixForm :: "nat \<Rightarrow> string \<Rightarrow> string \<Rightarrow> bool" where
  "posixForm n dir name =
     (let k = length name
      in length dir + 1 + 1 + n + 5 \<le> k
         \<and> take (length dir + 1) name = dir @ ''/''
         \<and> drop (k - 5) name = ''.sock''
         \<and> list_all isHexChar (take n (drop (k - 5 - n) name))
         \<and> name ! (k - 5 - n - 1) = CHR ''-'')"

text \<open>An absolute path written from its segments, and a segment that normalisation
  keeps as it is.\<close>

definition absolutePath :: "string list \<Rightarrow> string" where
  "absolutePath segs = concat (map (\<lambda>seg. CHR ''/'' # seg) segs)"

definition plainSegment :: "string \<Rightarrow> bool" where
  "plainSegment seg = (seg \<noteq> [] \<and> CHR ''/'' \<notin> set seg \<and> seg \<noteq> ''.'' \<and> seg \<noteq> ''..'')"

text \<open>The error and the message of an error notification.\<close>

definition notified :: "error_notification \<Rightarrow> jsval \<times> Message option" where
  "notified n = (fst n, fst (snd n))"

section \<open>Properties of the process-backed channels\<close>

lemma handleError_count: "errorCount (handleError error msg w) = errorCount w + 1"
  by (simp add: handleError_def writer_fireError_def Let_def)

lemma handleError_onError:
  "writer_onError (handleError error msg w) =
     writer_onError w @ [(error, Some msg, Some (errorCount w + 1))]"
  by (simp add: handleError_def writer_fireError_def Let_def)

lemma handleError_onClose: "writer_onClose (handleError error msg w) = writer_onClose w"
  by (simp add: handleError_def writer_fireError_def Let_def)

lemma sendCallback_count:
  "errorCount (sendCallback error msg w) = (if truthy error then errorCount w + 2 else 0)"
  by (simp add: sendCallback_def handleError_count)

lemma emit_count: "errorCount (IPCMessageWriter_emit ev w) = errorCount w"
  by (cases ev) (simp_all add: writer_fireError_def)

lemma write_count:
  "errorCount (writer (IPCMessageWriter_write p msg w)) =
     (case send p of
        None \<Rightarrow> errorCount w
      | Some f \<Rightarrow> (case f msg of SendReturns \<Rightarrow> errorCount w
                                  | SendThrows error \<Rightarrow> errorCount w + 1))"
  by (simp add: IPCMessageWriter_write_def handleError_count
      split: option.splits send_outcome.splits)

text \<open>
  C1. The claim asks that each failed send raises the error count by exactly one and that
  the notification carries the number of consecutive failures. At a fresh writer, a send
  that is accepted and whose completion callback reports an error leaves the count at two,
  and the notification carries two: the callback increments the count and then calls
  \<open>handleError\<close>, which increments it again. Two such sends in a row leave it at four.
  The synchronous path, through \<open>handleError\<close> alone, counts one.
\<close>

theorem async_send_failure_counts_twice:
  "errorCount (writer_run
      [Write acceptingProcess (Message ''2.0''), Completion (JError ''EPIPE'') (Message ''2.0'')]
      IPCMessageWriter_new) = 2
   \<and> writer_onError (writer_run
      [Write acceptingProcess (Message ''2.0''), Completion (JError ''EPIPE'') (Message ''2.0'')]
      IPCMessageWriter_new) = [(JError ''EPIPE'', Some (Message ''2.0''), Some 2)]
   \<and> errorCount (writer_run
      [Write acceptingProcess (Message ''2.0''), Completion (JError ''EPIPE'') (Message ''2.0''),
       Write acceptingProcess (Message ''2.0''), Completion (JError ''EPIPE'') (Message ''2.0'')]
      IPCMessageWriter_new) = 4
   \<and> errorCount (writer_run [Write throwingProcess (Message ''2.0'')] IPCMessageWriter_new) = 1"
  by (simp add: writer_run_def sendCallback_def handleError_def writer_fireError_def Let_def
      IPCMessageWriter_new_def IPCMessageWriter_write_def throwingProcess_def
      acceptingProcess_def)

text \<open>
  C3. \<open>write\<close> on an endpoint without a send function attempts no send and returns a
  resolved promise. When the native send throws, the returned promise is rejected with the
  thrown error and one error notification with that error and the message is fired. When
  the send is accepted, the returned promise is resolved at once; a later completion
  callback with an error fires one error notification with that error and the message and
  no close notification, and has no access to the promise already returned.
\<close>

theorem write_behaviour:
  "(send p = None \<longrightarrow>
      returned (IPCMessageWriter_write p msg w) = Fulfilled ()
      \<and> sends (IPCMessageWriter_write p msg w) = []
      \<and> writer (IPCMessageWriter_write p msg w) = w)
   \<and> (\<forall>f e. send p = Some f \<and> f msg = SendThrows e \<longrightarrow>
      returned (IPCMessageWriter_write p msg w) = Rejected e
      \<and> sends (IPCMessageWriter_write p msg w) = [msg]
      \<and> map notified (writer_onError (writer (IPCMessageWriter_write p msg w)))
          = map notified (writer_onError w) @ [(e, Some msg)])
   \<and> (\<forall>f e. send p = Some f \<and> f msg = SendReturns \<longrightarrow>
      returned (IPCMessageWriter_write p msg w) = Fulfilled ()
      \<and> sends (IPCMessageWriter_write p msg w) = [msg]
      \<and> callbacks (IPCMessageWriter_write p msg w) = [msg]
      \<and> writer (IPCMessageWriter_write p msg w) = w
      \<and> (truthy e \<longrightarrow>
            map notified (writer_onError (sendCallback e msg (writer (IPCMessageWriter_write p msg w))))
              = map notified (writer_onError w) @ [(e, Some msg)]
            \<and> writer_onClose (sendCallback e msg (writer (IPCMessageWriter_write p msg w)))
              = writer_onClose w))"
  by (simp add: IPCMessageWriter_write_def sendCallback_def handleError_onError
      handleError_onClose notified_def)

theorem write_behaviour_witness:
  "send noSendProcess = None
   \<and> returned (IPCMessageWriter_write noSendProcess (Message ''2.0'') IPCMessageWriter_new)
       = Fulfilled ()
   \<and> sends (IPCMessageWriter_write noSendProcess (Message ''2.0'') IPCMessageWriter_new) = []
   \<and> send throwingProcess = Some throwingSend
   \<and> throwingSend (Message ''2.0'') = SendThrows (JError ''ERR_IPC_CHANNEL_CLOSED'')
   \<and> returned (IPCMessageWriter_write throwingProcess (Message ''2.0'') IPCMessageWriter_new)
       = Rejected (JError ''ERR_IPC_CHANNEL_CLOSED'')
   \<and> map notified (writer_onError (writer
         (IPCMessageWriter_write throwingProcess (Message ''2.0'') IPCMessageWriter_new)))
       = [(JError ''ERR_IPC_CHANNEL_CLOSED'', Some (Message ''2.0''))]
   \<and> send acceptingProcess = Some acceptingSend
   \<and> acceptingSend (Message ''2.0'') = SendReturns
   \<and> truthy (JError ''EPIPE'')
   \<and> returned (IPCMessageWriter_write acceptingProcess (Message ''2.0'') IPCMessageWriter_new)
       = Fulfilled ()
   \<and> map notified (writer_onError (sendCallback (JError ''EPIPE'') (Message ''2.0'')
         (writer (IPCMessageWriter_write acceptingProcess (Message ''2.0'') IPCMessageWriter_new))))
       = [(JError ''EPIPE'', Some (Message ''2.0''))]"
  using write_behaviour [of noSendProcess "Message ''2.0''" IPCMessageWriter_new]
    write_behaviour [of throwingProcess "Message ''2.0''" IPCMessageWriter_new]
    write_behaviour [of acceptingProcess "Message ''2.0''" IPCMessageWriter_new]
  by (auto simp: noSendProcess_def throwingProcess_def acceptingProcess_def
      IPCMessageWriter_new_def)

text \<open>
  C4. The claim asks that every native close event of the endpoint fires the channel's
  close notification, for the reader and for the writer. The reader does so, and both
  forward a native error with the same error value; after a native close event the writer
  has fired no close notification, since its handler names \<open>fireClose\<close> without
  calling it.
\<close>

theorem writer_close_event_not_forwarded:
  "writer_onClose (IPCMessageWriter_emit NativeClose IPCMessageWriter_new) = 0
   \<and> IPCMessageWriter_emit NativeClose IPCMessageWriter_new = IPCMessageWriter_new
   \<and> reader_onClose (IPCMessageReader_emit NativeClose IPCMessageReader_new) = 1
   \<and> reader_onError (IPCMessageReader_emit (NativeError (JError ''EPIPE'')) IPCMessageReader_new)
       = [(JError ''EPIPE'', None, None)]
   \<and> writer_onError (IPCMessageWriter_emit (NativeError (JError ''EPIPE'')) IPCMessageWriter_new)
       = [(JError ''EPIPE'', None, None)]"
  by (simp add: IPCMessageWriter_new_def IPCMessageReader_new_def reader_fireClose_def
      reader_fireError_def writer_fireError_def)

section \<open>Properties of the transport bootstrap and of the stream-backed writer\<close>

lemma fold_callListener_keeps:
  "connected (fold (callListener e) ls s) = connected s
   \<and> phase (fold (callListener e) ls s) = phase s
   \<and> errorListeners (fold (callListener e) ls s) = errorListeners s
   \<and> transport_encoding (fold (callListener e) ls s) = transport_encoding s
   \<and> channelsMade (calls (fold (callListener e) ls s)) = channelsMade (calls s)
   \<and> count_list (calls (fold (callListener e) ls s)) ConnectResolve = count_list (calls s) ConnectResolve
   \<and> filter isConnectReject (calls (fold (callListener e) ls s)) = filter isConnectReject (calls s)"
proof (induction ls arbitrary: s)
  case Nil
  then show ?case by simp
next
  case (Cons l ls)
  have step: "connected (callListener e l s) = connected s
     \<and> phase (callListener e l s) = phase s
     \<and> errorListeners (callListener e l s) = errorListeners s
     \<and> transport_encoding (callListener e l s) = transport_encoding s
     \<and> channelsMade (calls (callListener e l s)) = channelsMade (calls s)
     \<and> count_list (calls (callListener e l s)) ConnectResolve = count_list (calls s) ConnectResolve
     \<and> filter isConnectReject (calls (callListener e l s)) = filter isConnectReject (calls s)"
    by (cases l) (simp add: channelsMade_def)
  show ?case using Cons.IH [of "callListener e l s"] step by simp
qed

lemma emitError_keeps:
  "connected (emitError e s) = connected s
   \<and> phase (emitError e s) = phase s
   \<and> errorListeners (emitError e s) = errorListeners s
   \<and> transport_encoding (emitError e s) = transport_encoding s
   \<and> channelsMade (calls (emitError e s)) = channelsMade (calls s)
   \<and> count_list (calls (emitError e s)) ConnectResolve = count_list (calls s) ConnectResolve
   \<and> filter isConnectReject (calls (emitError e s)) = filter isConnectReject (calls s)"
  by (simp add: emitError_def fold_callListener_keeps)

lemma once_deliver: "once s \<Longrightarrow> once (deliver ev s)"
proof (cases ev)
  case Listening
  assume "once s"
  then show ?thesis using Listening
    by (auto simp: once_def listeningListener_def Let_def channelsMade_def)
next
  case (Error e)
  assume "once s"
  then show ?thesis using Error
    by (auto simp: once_def emitError_keeps)
next
  case (Connection sock)
  assume "once s"
  then show ?thesis using Connection
    by (auto simp: once_def connectionListener_def Let_def channelsMade_def)
next
  case Close
  assume "once s"
  then show ?thesis using Close by simp
qed

lemma once_run: "once s \<Longrightarrow> once (run evs s)"
  unfolding run_def by (induction evs arbitrary: s) (simp_all add: once_deliver)

lemma once_pipe: "once (createClientPipeTransport pipeName encoding)"
  by (simp add: once_def createClientPipeTransport_def channelsMade_def)

lemma once_socket: "once (createClientSocketTransport port encoding)"
  by (simp add: once_def createClientSocketTransport_def channelsMade_def)

lemma deliver_encoding: "transport_encoding (deliver ev s) = transport_encoding s"
  by (cases ev) (simp_all add: listeningListener_def connectionListener_def emitError_keeps Let_def)

lemma run_encoding: "transport_encoding (run evs s) = transport_encoding s"
  unfolding run_def by (induction evs arbitrary: s) (simp_all add: deliver_encoding)

lemma stopped_deliver:
  "phase s = Stopped \<Longrightarrow> phase (deliver ev s) = Stopped \<and> connected (deliver ev s) = connected s"
  by (cases ev) (simp_all add: emitError_keeps)

lemma stopped_run:
  "phase s = Stopped \<Longrightarrow> phase (run evs s) = Stopped \<and> connected (run evs s) = connected s"
  unfolding run_def
proof (induction evs arbitrary: s)
  case Nil
  then show ?case by simp
next
  case (Cons ev evs)
  from Cons.prems stopped_deliver [of s ev]
  have "phase (deliver ev s) = Stopped" and "connected (deliver ev s) = connected s" by simp_all
  with Cons.IH [of "deliver ev s"] show ?case by simp
qed

lemma accept_first:
  assumes "once s" and "phase s = Bound"
  shows "calls (deliver (Connection sock) s) =
           calls s @ [ServerClose, NewSocketMessageReader (handle sock),
                      NewSocketMessageWriter (handle sock), ConnectResolve]"
    and "connected (deliver (Connection sock) s) =
           Fulfilled (SocketMessageReader_new sock (Some (transport_encoding s)),
                      SocketMessageWriter_new sock (Some (transport_encoding s)))"
    and "phase (deliver (Connection sock) s) = Stopped"
  using assms by (simp_all add: once_def connectionListener_def Let_def)

lemma once_bounds:
  "once s \<Longrightarrow> channelsMade (calls s) \<le> 1 \<and> count_list (calls s) ConnectResolve \<le> 1"
  by (auto simp: once_def split: if_splits)

lemma once_stopped:
  "once s \<Longrightarrow> phase s = Stopped \<Longrightarrow>
     channelsMade (calls s) = 1 \<and> count_list (calls s) ConnectResolve = 1"
  by (simp add: once_def)

text \<open>
  C2. For a pipe or a socket bootstrap in the client role, after any events: at most one
  channel has been made and the resolve callback of the connection promise has been called
  at most once. When a connection is handed over while the server is bound, the listener
  calls \<open>server.close()\<close> first, then constructs the reader and the writer over that
  socket and resolves the promise with them; whatever happens later, \<open>onConnected\<close>
  stays fulfilled with that pair, the server stays stopped, and exactly one channel has
  been made. Even a further call of the connection listener itself would leave the promise
  fulfilled with the first pair.
\<close>

theorem first_connection_closes_listener_and_resolves_once:
  assumes "s0 = createClientPipeTransport pipeName encoding
           \<or> s0 = createClientSocketTransport port encoding"
  shows "channelsMade (calls (run evs s0)) \<le> 1
     \<and> count_list (calls (run evs s0)) ConnectResolve \<le> 1
     \<and> (phase (run evs s0) = Bound \<longrightarrow>
          calls (deliver (Connection sock) (run evs s0)) =
            calls (run evs s0) @ [ServerClose, NewSocketMessageReader (handle sock),
                                  NewSocketMessageWriter (handle sock), ConnectResolve]
          \<and> (\<forall>later.
                onConnected (run later (deliver (Connection sock) (run evs s0))) =
                  Fulfilled (SocketMessageReader_new sock (Some (defaultEncoding encoding)),
                             SocketMessageWriter_new sock (Some (defaultEncoding encoding)))
                \<and> phase (run later (deliver (Connection sock) (run evs s0))) = Stopped
                \<and> channelsMade (calls (run later (deliver (Connection sock) (run evs s0)))) = 1
                \<and> count_list (calls (run later (deliver (Connection sock) (run evs s0))))
                     ConnectResolve = 1
                \<and> onConnected (connectionListener other
                      (run later (deliver (Connection sock) (run evs s0)))) =
                  Fulfilled (SocketMessageReader_new sock (Some (defaultEncoding encoding)),
                             SocketMessageWriter_new sock (Some (defaultEncoding encoding)))))"
proof -
  let ?s = "run evs s0"
  have o0: "once s0" using assms once_pipe once_socket by auto
  have enc0: "transport_encoding s0 = defaultEncoding encoding"
    using assms by (auto simp: createClientPipeTransport_def createClientSocketTransport_def)
  have o: "once ?s" using o0 by (rule once_run)
  have enc: "transport_encoding ?s = defaultEncoding encoding"
    using enc0 by (simp add: run_encoding)
  have bounds: "channelsMade (calls ?s) \<le> 1 \<and> count_list (calls ?s) ConnectResolve \<le> 1"
    using o by (rule once_bounds)
  have acc: "calls (deliver (Connection sock) ?s) =
            calls ?s @ [ServerClose, NewSocketMessageReader (handle sock),
                        NewSocketMessageWriter (handle sock), ConnectResolve]
          \<and> (\<forall>later.
                onConnected (run later (deliver (Connection sock) ?s)) =
                  Fulfilled (SocketMessageReader_new sock (Some (defaultEncoding encoding)),
                             SocketMessageWriter_new sock (Some (defaultEncoding encoding)))
                \<and> phase (run later (deliver (Connection sock) ?s)) = Stopped
                \<and> channelsMade (calls (run later (deliver (Connection sock) ?s))) = 1
                \<and> count_list (calls (run later (deliver (Connection sock) ?s)))
                     ConnectResolve = 1
                \<and> onConnected (connectionListener other
                      (run later (deliver (Connection sock) ?s))) =
                  Fulfilled (SocketMessageReader_new sock (Some (defaultEncoding encoding)),
                             SocketMessageWriter_new sock (Some (defaultEncoding encoding))))"
    if b: "phase ?s = Bound"
  proof -
    let ?t = "deliver (Connection sock) ?s"
    have ot: "once ?t" using o by (rule once_deliver)
    have pt: "phase ?t = Stopped" using o b by (rule accept_first(3))
    have ct: "connected ?t =
           Fulfilled (SocketMessageReader_new sock (Some (defaultEncoding encoding)),
                      SocketMessageWriter_new sock (Some (defaultEncoding encoding)))"
      using accept_first(2) [OF o b, of sock] enc by simp
    have later: "onConnected (run later ?t) =
                  Fulfilled (SocketMessageReader_new sock (Some (defaultEncoding encoding)),
                             SocketMessageWriter_new sock (Some (defaultEncoding encoding)))
                \<and> phase (run later ?t) = Stopped
                \<and> channelsMade (calls (run later ?t)) = 1
                \<and> count_list (calls (run later ?t)) ConnectResolve = 1
                \<and> onConnected (connectionListener other (run later ?t)) =
                  Fulfilled (SocketMessageReader_new sock (Some (defaultEncoding encoding)),
                             SocketMessageWriter_new sock (Some (defaultEncoding encoding)))"
      for later
    proof -
      have p: "phase (run later ?t) = Stopped" and c: "connected (run later ?t) = connected ?t"
        using stopped_run [OF pt, of later] by simp_all
      have "once (run later ?t)" using ot by (rule once_run)
      then have "channelsMade (calls (run later ?t)) = 1
           \<and> count_list (calls (run later ?t)) ConnectResolve = 1"
        using p by (rule once_stopped)
      moreover have "connected (connectionListener other (run later ?t)) = connected ?t"
        using c ct by (simp add: connectionListener_def Let_def)
      ultimately show ?thesis using p c ct by (simp add: onConnected_def)
    qed
    show ?thesis using accept_first(1) [OF o b, of sock] later by blast
  qed
  show ?thesis using bounds acc by blast
qed

lemma phase_pipe_listening:
  "phase (run [Listening] (createClientPipeTransport pipeName encoding)) = Bound"
  by (simp add: run_def createClientPipeTransport_def listeningListener_def Let_def)

theorem first_connection_closes_listener_and_resolves_once_witness:
  "phase (run [Listening] (createClientPipeTransport ''/tmp/rpc.sock'' None)) = Bound
   \<and> onConnected (run [Connection (acceptedSocket 2), Close]
         (deliver (Connection (acceptedSocket 1))
           (run [Listening] (createClientPipeTransport ''/tmp/rpc.sock'' None)))) =
       Fulfilled (SocketMessageReader_new (acceptedSocket 1) (Some ''utf-8''),
                  SocketMessageWriter_new (acceptedSocket 1) (Some ''utf-8''))
   \<and> channelsMade (calls (run [Connection (acceptedSocket 2), Close]
         (deliver (Connection (acceptedSocket 1))
           (run [Listening] (createClientPipeTransport ''/tmp/rpc.sock'' None))))) = 1"
  using first_connection_closes_listener_and_resolves_once
    [of "createClientPipeTransport ''/tmp/rpc.sock'' None" "''/tmp/rpc.sock''" None 0
        "[Listening]" "acceptedSocket 1"]
    phase_pipe_listening [of "''/tmp/rpc.sock''" None]
  by (simp add: defaultEncoding_def)

lemma no_connection_deliver:
  "\<not> isConnection ev \<Longrightarrow> phase s \<noteq> Stopped \<Longrightarrow> phase (deliver ev s) \<noteq> Stopped"
  by (cases ev) (auto simp: emitError_keeps listeningListener_def Let_def)

lemma no_connection_run:
  "filter isConnection evs = [] \<Longrightarrow> phase s \<noteq> Stopped \<Longrightarrow> phase (run evs s) \<noteq> Stopped"
  unfolding run_def
proof (induction evs arbitrary: s)
  case Nil
  then show ?case by simp
next
  case (Cons ev evs)
  from Cons.prems have a: "\<not> isConnection ev" and b: "filter isConnection evs = []"
    by (auto split: if_splits)
  from a Cons.prems(2) have "phase (deliver ev s) \<noteq> Stopped" by (rule no_connection_deliver)
  with Cons.IH [OF b] show ?case by simp
qed

lemma once_not_rejected: "once s \<Longrightarrow> \<not> isRejected (connected s)"
  by (cases "connected s") (auto simp: once_def split: if_splits)

text \<open>
  C10. For a pipe or a socket bootstrap in the client role, after any events the promise
  returned by \<open>onConnected\<close> is not rejected and its reject callback has never been
  called; when no connection is among the events, the promise is still pending.
\<close>

theorem connected_never_rejects:
  assumes "s0 = createClientPipeTransport pipeName encoding
           \<or> s0 = createClientSocketTransport port encoding"
  shows "\<not> isRejected (onConnected (run evs s0))
     \<and> filter isConnectReject (calls (run evs s0)) = []
     \<and> (filter isConnection evs = [] \<longrightarrow> onConnected (run evs s0) = Pending)"
proof -
  have o0: "once s0" using assms once_pipe once_socket by auto
  have p0: "phase s0 \<noteq> Stopped"
    using assms by (auto simp: createClientPipeTransport_def createClientSocketTransport_def)
  have o: "once (run evs s0)" using o0 by (rule once_run)
  have a: "\<not> isRejected (onConnected (run evs s0))"
    using once_not_rejected [OF o] by (simp add: onConnected_def)
  have b: "filter isConnectReject (calls (run evs s0)) = []"
    using o by (simp add: once_def)
  have c: "onConnected (run evs s0) = Pending" if "filter isConnection evs = []"
  proof -
    from that p0 have "phase (run evs s0) \<noteq> Stopped" by (rule no_connection_run)
    with o show ?thesis by (simp add: once_def onConnected_def)
  qed
  show ?thesis using a b c by blast
qed

theorem connected_never_rejects_witness:
  "filter isConnection [Listening, Error (JError ''EMFILE''), Close] = []
   \<and> onConnected (run [Listening, Error (JError ''EMFILE''), Close]
        (createClientSocketTransport 8080 None)) = Pending
   \<and> \<not> isRejected (onConnected (run [Listening, Error (JError ''EMFILE''), Close]
        (createClientSocketTransport 8080 None)))"
  using connected_never_rejects
    [of "createClientSocketTransport 8080 None" "''''" None 8080
        "[Listening, Error (JError ''EMFILE''), Close]"]
  by simp

text \<open>
  C5, as the claim states it: after a failed bind the error handler is gone from the
  listener. At a pipe bootstrap whose bind fails with \<open>EADDRINUSE\<close> the outer promise is
  rejected with that error, and the handler is still registered.
\<close>

theorem bind_failure_keeps_error_handler_counterexample:
  "outer (deliver (Error (JError ''EADDRINUSE'')) (createClientPipeTransport ''/tmp/rpc.sock'' None))
     = Rejected (JError ''EADDRINUSE'')
   \<and> errorListeners
       (deliver (Error (JError ''EADDRINUSE'')) (createClientPipeTransport ''/tmp/rpc.sock'' None))
     \<noteq> []"
  by (simp add: createClientPipeTransport_def emitError_def)

text \<open>
  C5, amended. For a pipe or a socket bootstrap in the client role: when the bind fails,
  the outer promise is rejected with the bind error and the error handler stays
  registered on the listener; when the bind succeeds, the handler is removed and then the
  outer promise is resolved.
\<close>

theorem bind_failure_rejects_outer_success_removes_handler:
  assumes "s0 = createClientPipeTransport pipeName encoding
           \<or> s0 = createClientSocketTransport port encoding"
  shows "outer (deliver (Error error) s0) = Rejected error
     \<and> phase (deliver (Error error) s0) = Failed
     \<and> errorListeners (deliver (Error error) s0) = [RejectOuter]
     \<and> calls (deliver (Error error) s0) = calls s0 @ [OuterReject error]
     \<and> outer (deliver Listening s0) = Fulfilled PipeTransport
     \<and> errorListeners (deliver Listening s0) = []
     \<and> calls (deliver Listening s0) = calls s0 @ [RemoveErrorListener, OuterResolve]"
  using assms
  by (auto simp: createClientPipeTransport_def createClientSocketTransport_def emitError_def
      listeningListener_def removeListener_def Let_def)

theorem bind_failure_rejects_outer_success_removes_handler_witness:
  "outer (deliver (Error (JError ''EADDRINUSE'')) (createClientSocketTransport 8080 None))
     = Rejected (JError ''EADDRINUSE'')
   \<and> errorListeners (deliver (Error (JError ''EADDRINUSE'')) (createClientSocketTransport 8080 None))
     = [RejectOuter]
   \<and> errorListeners (deliver Listening (createClientSocketTransport 8080 None)) = []"
  using bind_failure_rejects_outer_success_removes_handler
    [of "createClientSocketTransport 8080 None" "''''" None 8080 "JError ''EADDRINUSE''"]
  by simp

lemma deliver_hosts:
  "hosts (calls (deliver ev s)) = hosts (calls s) \<and> ports (calls (deliver ev s)) = ports (calls s)"
proof -
  have f: "hosts (calls (fold (callListener e) ls t)) = hosts (calls t)
           \<and> ports (calls (fold (callListener e) ls t)) = ports (calls t)" for e ls t
  proof (induction ls arbitrary: t)
    case Nil
    then show ?case by simp
  next
    case (Cons l ls)
    have "hosts (calls (callListener e l t)) = hosts (calls t)
          \<and> ports (calls (callListener e l t)) = ports (calls t)"
      by (cases l) (simp add: hosts_def ports_def)
    with Cons.IH [of "callListener e l t"] show ?case by simp
  qed
  show ?thesis
    by (cases ev)
      (simp_all add: listeningListener_def connectionListener_def emitError_def Let_def f,
       simp_all add: hosts_def ports_def)
qed

lemma run_hosts:
  "hosts (calls (run evs s)) = hosts (calls s) \<and> ports (calls (run evs s)) = ports (calls s)"
  unfolding run_def by (induction evs arbitrary: s) (simp_all add: deliver_hosts)

text \<open>
  C9. The only host that the client-role socket bootstrap binds, through any events, is
  \<open>127.0.0.1\<close>, with the port of the caller; the only host that the server-role socket
  transport dials is \<open>127.0.0.1\<close>, with the port of the caller, and the reader and the
  writer it returns are over that socket.
\<close>

theorem socket_transports_use_loopback:
  "hosts (calls (run evs (createClientSocketTransport port encoding))) = [''127.0.0.1'']
   \<and> ports (calls (run evs (createClientSocketTransport port encoding))) = [port]
   \<and> hosts (fst (createServerSocketTransport h port encoding)) = [''127.0.0.1'']
   \<and> ports (fst (createServerSocketTransport h port encoding)) = [port]
   \<and> remote (reader_socket (fst (snd (createServerSocketTransport h port encoding))))
       = Some (TcpPort port ''127.0.0.1'')
   \<and> remote (socket (snd (snd (createServerSocketTransport h port encoding))))
       = Some (TcpPort port ''127.0.0.1'')"
  by (simp add: run_hosts)
    (simp add: createClientSocketTransport_def createServerSocketTransport_def hosts_def
      ports_def Let_def createConnection_def SocketMessageReader_new_def
      SocketMessageWriter_new_def)

text \<open>
  C8. Disposing a stream-backed writer over a live socket twice returns normally both
  times, and the socket's handle has been closed exactly once; the writer calls
  \<open>destroy\<close> at each \<open>dispose\<close>, and the second call finds the socket destroyed.
\<close>

theorem dispose_twice_closes_once:
  "\<not> destroyed (socket w) \<Longrightarrow>
     (case dispose_twice w of
        Inl error \<Rightarrow> False
      | Inr w2 \<Rightarrow> destroyed (socket w2) \<and> teardowns (socket w2) = teardowns (socket w) + 1
                  \<and> destroyCalls (socket w2) = destroyCalls (socket w) + 2)"
  by (simp add: dispose_twice_def dispose_def super_dispose_def destroy_def)

theorem dispose_twice_closes_once_witness:
  "\<not> destroyed (socket (SocketMessageWriter_new (acceptedSocket 1) (Some ''utf-8'')))
   \<and> (case dispose_twice (SocketMessageWriter_new (acceptedSocket 1) (Some ''utf-8'')) of
        Inl error \<Rightarrow> False
      | Inr w2 \<Rightarrow> destroyed (socket w2) \<and> teardowns (socket w2) = 1)"
proof -
  have h: "\<not> destroyed (socket (SocketMessageWriter_new (acceptedSocket 1) (Some ''utf-8'')))"
    by (simp add: SocketMessageWriter_new_def acceptedSocket_def)
  show ?thesis
    using h dispose_twice_closes_once [OF h]
    by (auto simp: SocketMessageWriter_new_def acceptedSocket_def split: sum.splits)
qed

section \<open>Properties of the connection factory\<close>

text \<open>
  C7. \<open>createMessageConnection\<close> passes \<open>NullLogger\<close> when the logger is missing; it
  passes the input itself as reader exactly when the input has a \<open>listen\<close> member and no
  \<open>read\<close> member and a stream reader around it otherwise, and the output itself as writer
  exactly when the output has a \<open>write\<close> member and no \<open>end\<close> member and a stream
  writer around it otherwise; a bare strategy as options gives the same connection as the
  options structure with that strategy as \<open>connectionStrategy\<close>.
  \<open>createProtocolConnection\<close> normalises a bare strategy in the same way, and over
  \<open>createMessageConnection\<close> it gives the connection that \<open>createMessageConnection\<close> gives.
\<close>

theorem connection_factory_normalises:
  "createMessageConnection create input output None options
     = createMessageConnection create input output (Some NullLogger) options
   \<and> createMessageConnection create input output (Some l) None
     = create (if getMember input ''listen'' \<noteq> JUndefined \<and> getMember input ''read'' = JUndefined
               then ReaderObject input else StreamMessageReader input)
              (if getMember output ''write'' \<noteq> JUndefined \<and> getMember output ''end'' = JUndefined
               then WriterObject output else StreamMessageWriter output)
              l None
   \<and> createMessageConnection create input output (Some l) (Some (FullOptions opts))
     = create (if getMember input ''listen'' \<noteq> JUndefined \<and> getMember input ''read'' = JUndefined
               then ReaderObject input else StreamMessageReader input)
              (if getMember output ''write'' \<noteq> JUndefined \<and> getMember output ''end'' = JUndefined
               then WriterObject output else StreamMessageWriter output)
              l (Some (FullOptions opts))
   \<and> createMessageConnection create input output logger (Some (BareStrategy st))
     = createMessageConnection create input output logger
         (Some (FullOptions \<lparr>connectionStrategy = Some st, maxRestartConsecutiveCrashes = None\<rparr>))
   \<and> createProtocolConnection create2 input output logger (Some (BareStrategy st))
     = createProtocolConnection create2 input output logger
         (Some (FullOptions \<lparr>connectionStrategy = Some st, maxRestartConsecutiveCrashes = None\<rparr>))
   \<and> createProtocolConnection (createMessageConnection create) input output logger
         (Some (BareStrategy st))
     = createMessageConnection create input output logger (Some (BareStrategy st))"
  by (simp add: createMessageConnection_def createProtocolConnection_def isMessageReader_def
      isMessageWriter_def Let_def)

theorem connection_factory_normalises_witness:
  "createMessageConnection MessageConnection
      [(''listen'', JFunction ''listen'')]
      [(''write'', JFunction ''write''), (''end'', JFunction ''end'')]
      None (Some (BareStrategy (ConnectionStrategy ''cancelUndispatched'')))
   = MessageConnection
      (ReaderObject [(''listen'', JFunction ''listen'')])
      (StreamMessageWriter [(''write'', JFunction ''write''), (''end'', JFunction ''end'')])
      NullLogger
      (Some (FullOptions \<lparr>connectionStrategy = Some (ConnectionStrategy ''cancelUndispatched''),
                           maxRestartConsecutiveCrashes = None\<rparr>))"
proof -
  let ?i = "[(''listen'', JFunction ''listen'')]"
  let ?o = "[(''write'', JFunction ''write''), (''end'', JFunction ''end'')]"
  let ?st = "ConnectionStrategy ''cancelUndispatched''"
  note n = connection_factory_normalises
    [of MessageConnection ?i ?o "Some (BareStrategy ?st)" NullLogger
        "\<lparr>connectionStrategy = Some ?st, maxRestartConsecutiveCrashes = None\<rparr>" None ?st]
  note m = connection_factory_normalises
    [of MessageConnection ?i ?o
        "Some (FullOptions \<lparr>connectionStrategy = Some ?st, maxRestartConsecutiveCrashes = None\<rparr>)"
        NullLogger
        "\<lparr>connectionStrategy = Some ?st, maxRestartConsecutiveCrashes = None\<rparr>" None ?st]
  have a: "createMessageConnection MessageConnection ?i ?o None (Some (BareStrategy ?st))
        = createMessageConnection MessageConnection ?i ?o None
         (Some (FullOptions \<lparr>connectionStrategy = Some ?st, maxRestartConsecutiveCrashes = None\<rparr>))"
    using n by blast
  have b: "createMessageConnection MessageConnection ?i ?o None
         (Some (FullOptions \<lparr>connectionStrategy = Some ?st, maxRestartConsecutiveCrashes = None\<rparr>))
       = createMessageConnection MessageConnection ?i ?o (Some NullLogger)
         (Some (FullOptions \<lparr>connectionStrategy = Some ?st, maxRestartConsecutiveCrashes = None\<rparr>))"
    using m by blast
  have c: "createMessageConnection MessageConnection ?i ?o (Some NullLogger)
         (Some (FullOptions \<lparr>connectionStrategy = Some ?st, maxRestartConsecutiveCrashes = None\<rparr>))
       = MessageConnection
          (if getMember ?i ''listen'' \<noteq> JUndefined \<and> getMember ?i ''read'' = JUndefined
               then ReaderObject ?i else StreamMessageReader ?i)
              (if getMember ?o ''write'' \<noteq> JUndefined \<and> getMember ?o ''end'' = JUndefined
               then WriterObject ?o else StreamMessageWriter ?o)
          NullLogger
          (Some (FullOptions \<lparr>connectionStrategy = Some ?st, maxRestartConsecutiveCrashes = None\<rparr>))"
    using n by blast
  show ?thesis unfolding a b c by (simp add: getMember_def)
qed

section \<open>Properties of pipe names\<close>

lemma length_randomBytes: "length (randomBytes e n) = n"
  by (simp add: randomBytes_def)

lemma length_toHex: "length (toHex bs) = 2 * length bs"
  by (induction bs) (simp_all add: toHex_def hexByte_def)

lemma hexDigit_isHexChar: "isHexChar (hexDigit n)"
proof -
  have "n mod 16 < length ''0123456789abcdef''" by simp
  then have "''0123456789abcdef'' ! (n mod 16) \<in> set ''0123456789abcdef''"
    by (rule nth_mem)
  then show ?thesis by (simp add: isHexChar_def hexDigit_def)
qed

lemma toHex_isHexChar: "list_all isHexChar (toHex bs)"
  by (induction bs) (simp_all add: toHex_def hexByte_def hexDigit_isHexChar)

lemma hexDigit_inj:
  assumes "m < 16" and "n < 16" and "hexDigit m = hexDigit n"
  shows "m = n"
proof -
  have d: "distinct ''0123456789abcdef''" by simp
  have "m < length ''0123456789abcdef''" and "n < length ''0123456789abcdef''"
    using assms by simp_all
  with d assms(3) show ?thesis
    using assms(1,2) by (simp add: hexDigit_def nth_eq_iff_index_eq)
qed

lemma hexByte_inj:
  assumes "hexByte a = hexByte b"
  shows "a = b"
proof -
  have la: "unat a < 256" and lb: "unat b < 256"
    using unsigned_less [of a] unsigned_less [of b] by simp_all
  from assms have h: "hexDigit (unat a div 16) = hexDigit (unat b div 16)"
    and l: "hexDigit (unat a mod 16) = hexDigit (unat b mod 16)"
    by (simp_all add: hexByte_def)
  have "unat a div 16 = unat b div 16"
    using la lb h by (intro hexDigit_inj) simp_all
  moreover have "unat a mod 16 = unat b mod 16"
    using l by (intro hexDigit_inj) simp_all
  ultimately have "unat a = unat b"
    by (metis div_mult_mod_eq)
  then show ?thesis by (simp add: word_unat_eq_iff)
qed

lemma toHex_inj: "toHex as = toHex bs \<Longrightarrow> as = bs"
proof (induction as arbitrary: bs)
  case Nil
  then have "length (toHex bs) = 0" by (simp add: toHex_def)
  then show ?case by (simp add: length_toHex)
next
  case (Cons a as)
  show ?case
  proof (cases bs)
    case Nil
    with Cons.prems show ?thesis by (simp add: toHex_def hexByte_def)
  next
    case (Cons b bs')
    from Cons.prems Cons have e: "hexByte a @ toHex as = hexByte b @ toHex bs'"
      by (simp add: toHex_def)
    have "length (hexByte a) = length (hexByte b)" by (simp add: hexByte_def)
    with e have "hexByte a = hexByte b" and "toHex as = toHex bs'" by simp_all
    then show ?thesis using Cons.IH [of bs'] Cons hexByte_inj by simp
  qed
qed

lemma splitSlash_plain: "CHR ''/'' \<notin> set seg \<Longrightarrow> splitSlash seg = [seg]"
  by (induction seg) auto

lemma splitSlash_append:
  "CHR ''/'' \<notin> set seg \<Longrightarrow> splitSlash (seg @ CHR ''/'' # rest) = seg # splitSlash rest"
  by (induction seg) auto

lemma splitSlash_absolutePath:
  "list_all plainSegment segs \<Longrightarrow> CHR ''/'' \<notin> set name \<Longrightarrow>
     splitSlash (absolutePath segs @ CHR ''/'' # name) = [] # segs @ [name]"
proof (induction segs)
  case Nil
  then show ?case by (simp add: absolutePath_def splitSlash_plain)
next
  case (Cons seg segs)
  from Cons.prems(1) have ps: "plainSegment seg" and rest: "list_all plainSegment segs"
    by simp_all
  from ps have ns: "CHR ''/'' \<notin> set seg" by (simp add: plainSegment_def)
  have "absolutePath (seg # segs) @ CHR ''/'' # name
        = CHR ''/'' # (seg @ (absolutePath segs @ CHR ''/'' # name))"
    by (simp add: absolutePath_def)
  moreover have "absolutePath segs @ CHR ''/'' # name = CHR ''/'' # tl (absolutePath segs @ CHR ''/'' # name)"
    by (cases segs) (simp_all add: absolutePath_def)
  ultimately have "absolutePath (seg # segs) @ CHR ''/'' # name
        = CHR ''/'' # (seg @ CHR ''/'' # tl (absolutePath segs @ CHR ''/'' # name))"
    by simp
  then have "splitSlash (absolutePath (seg # segs) @ CHR ''/'' # name)
        = [] # seg # splitSlash (tl (absolutePath segs @ CHR ''/'' # name))"
    using splitSlash_append [OF ns, of "tl (absolutePath segs @ CHR ''/'' # name)"]
    by simp
  moreover have "splitSlash (absolutePath segs @ CHR ''/'' # name)
        = [] # splitSlash (tl (absolutePath segs @ CHR ''/'' # name))"
    by (cases segs) (simp_all add: absolutePath_def)
  ultimately show ?case using Cons.IH [OF rest Cons.prems(2)] by simp
qed

lemma normalizeSegments_plain:
  "list_all plainSegment segs \<Longrightarrow> normalizeSegments ab res segs = rev res @ segs"
  by (induction segs arbitrary: res) (simp_all add: plainSegment_def)

lemma joinSlash_absolutePath:
  "segs \<noteq> [] \<Longrightarrow> CHR ''/'' # joinSlash segs = absolutePath segs"
proof (induction segs rule: joinSlash.induct)
  case 1
  then show ?case by simp
next
  case (2 seg)
  then show ?case by (simp add: absolutePath_def)
next
  case (3 seg v va)
  then show ?case by (simp add: absolutePath_def)
qed

lemma path_join_plain:
  assumes "segs \<noteq> []" and "list_all plainSegment segs" and "plainSegment name"
  shows "path_join [absolutePath segs, name] = absolutePath segs @ CHR ''/'' # name"
proof -
  let ?d = "absolutePath segs"
  let ?p = "?d @ CHR ''/'' # name"
  obtain seg segs' where segs: "segs = seg # segs'" using assms(1) by (cases segs) auto
  have d: "?d \<noteq> []" and hd: "hd ?p = CHR ''/''" by (simp_all add: segs absolutePath_def)
  have n: "name \<noteq> []" and ns: "CHR ''/'' \<notin> set name" using assms(3) by (simp_all add: plainSegment_def)
  have "last ?p = last name" using n by simp
  moreover have "last name \<in> set name" using n by simp
  ultimately have last: "last ?p \<noteq> CHR ''/''" using ns by auto
  have j: "joinSlash (filter (\<lambda>p. p \<noteq> []) [?d, name]) = ?p" using d n by simp
  have all: "list_all plainSegment (segs @ [name])" using assms(2,3) by simp
  have "normalizeSegments False [] (splitSlash ?p) = segs @ [name]"
    using splitSlash_absolutePath [OF assms(2) ns] normalizeSegments_plain [OF all, of False "[]"]
    by simp
  moreover have "CHR ''/'' # joinSlash (segs @ [name]) = absolutePath (segs @ [name])"
    by (rule joinSlash_absolutePath) simp
  moreover have "absolutePath (segs @ [name]) = ?p" by (simp add: absolutePath_def)
  ultimately have q: "CHR ''/'' # joinSlash (normalizeSegments False [] (splitSlash ?p)) = ?p"
    by simp
  have "tl ?p = tl ?d @ CHR ''/'' # name" using d by simp
  with arg_cong [OF q, of tl]
  have ne: "joinSlash (normalizeSegments False [] (splitSlash ?p)) \<noteq> []" by simp
  have "normalize ?p = ?p"
    unfolding normalize_def Let_def using hd last ne q by simp
  then show ?thesis unfolding path_join_def Let_def j by simp
qed

lemma randomSuffix_length: "length (toHex (randomBytes e 21)) = 42"
  by (simp add: length_toHex length_randomBytes)

lemma isHexChar_not_slash: "isHexChar c \<Longrightarrow> c \<noteq> CHR ''/''"
  by (auto simp: isHexChar_def)

lemma sockName_plain:
  assumes "list_all isHexChar hex"
  shows "plainSegment (''vscode-'' @ hex @ ''.sock'')"
proof -
  have "CHR ''/'' \<notin> set hex"
    using assms isHexChar_not_slash by (auto simp: list_all_iff)
  then show ?thesis by (simp add: plainSegment_def)
qed

lemma windowsForm_42:
  assumes "length hex = 42" and "list_all isHexChar hex"
  shows "windowsForm 42 (pipeDir @ ''vscode-jsonrpc-'' @ hex @ ''-sock'')"
proof -
  let ?name = "pipeDir @ ''vscode-jsonrpc-'' @ hex @ ''-sock''"
  have k: "length ?name = 71" using assms(1) by (simp add: pipeDir_def)
  have p: "length pipeDir = 9" by (simp add: pipeDir_def)
  have a: "take 9 ?name = pipeDir" using p by simp
  have b: "drop 66 ?name = ''-sock''" using p assms(1) by simp
  have c: "take 42 (drop 24 ?name) = hex" using p assms(1) by simp
  have d: "?name ! 23 = CHR ''-''" using p by (simp add: nth_append)
  show ?thesis
    unfolding windowsForm_def Let_def k p using a b c d assms(2) by simp
qed

lemma posixForm_42:
  assumes "length hex = 42" and "list_all isHexChar hex"
  shows "posixForm 42 dir (dir @ ''/vscode-'' @ hex @ ''.sock'')"
proof -
  let ?name = "dir @ ''/vscode-'' @ hex @ ''.sock''"
  have k: "length ?name = length dir + 55" using assms(1) by simp
  have a: "take (length dir + 1) ?name = dir @ ''/''" by simp
  have b: "drop (length dir + 50) ?name = ''.sock''" using assms(1) by simp
  have c: "take 42 (drop (length dir + 8) ?name) = hex" using assms(1) by simp
  show ?thesis
    unfolding posixForm_def Let_def k using a b c assms(2) by (simp add: nth_append)
qed

text \<open>
  C6, as the claim states it: the random part of a pipe name has 32 hexadecimal
  characters. With the entropy bytes 0, 1, 2, ... the name has neither the Windows form
  nor the form of the other platforms with a random part of 32 characters; and with the
  root as temporary directory the name is the root followed by the file name, with no
  further slash.
\<close>

theorem pipe_name_32_hex_counterexample:
  "\<not> windowsForm 32
       (generateRandomPipeName \<lparr>platform = ''win32'', tmpdir = ''/tmp'', entropy = of_nat\<rparr>)
   \<and> \<not> posixForm 32 ''/tmp''
       (generateRandomPipeName \<lparr>platform = ''linux'', tmpdir = ''/tmp'', entropy = of_nat\<rparr>)
   \<and> \<not> posixForm 42 ''/''
       (generateRandomPipeName \<lparr>platform = ''linux'', tmpdir = ''/'', entropy = of_nat\<rparr>)"
  by code_simp

text \<open>
  C6, amended. The random part of a pipe name is the hexadecimal rendering of 21 bytes of
  the entropy source: 42 hexadecimal characters, which determine the 21 bytes (168 bits).
  On win32 the name is the directory of named pipes followed by \<open>vscode-jsonrpc-\<close>, the
  random part and \<open>-sock\<close>. On any other platform it is \<open>path.join\<close> of the temporary
  directory and \<open>vscode-\<close>, the random part and \<open>.sock\<close>; this is the temporary
  directory, a slash and that file name whenever the temporary directory is an absolute
  path of one or more plain segments.
\<close>

theorem pipe_name_format:
  "length (toHex (randomBytes (entropy env) 21)) = 42
   \<and> list_all isHexChar (toHex (randomBytes (entropy env) 21))
   \<and> (toHex (randomBytes (entropy env) 21) = toHex (randomBytes (entropy env2) 21)
        \<longrightarrow> randomBytes (entropy env) 21 = randomBytes (entropy env2) 21)
   \<and> (platform env = ''win32'' \<longrightarrow>
        generateRandomPipeName env
          = pipeDir @ ''vscode-jsonrpc-'' @ toHex (randomBytes (entropy env) 21) @ ''-sock''
        \<and> windowsForm 42 (generateRandomPipeName env))
   \<and> (platform env \<noteq> ''win32'' \<longrightarrow>
        generateRandomPipeName env
          = path_join [tmpdir env, ''vscode-'' @ toHex (randomBytes (entropy env) 21) @ ''.sock''])
   \<and> (platform env \<noteq> ''win32'' \<and> tmpdir env = absolutePath segs \<and> segs \<noteq> []
        \<and> list_all plainSegment segs \<longrightarrow>
        generateRandomPipeName env
          = tmpdir env @ ''/vscode-'' @ toHex (randomBytes (entropy env) 21) @ ''.sock''
        \<and> posixForm 42 (tmpdir env) (generateRandomPipeName env))"
proof -
  let ?hex = "toHex (randomBytes (entropy env) 21)"
  have len: "length ?hex = 42" by (rule randomSuffix_length)
  have hex: "list_all isHexChar ?hex" by (rule toHex_isHexChar)
  have inj: "?hex = toHex (randomBytes (entropy env2) 21)
        \<longrightarrow> randomBytes (entropy env) 21 = randomBytes (entropy env2) 21"
    using toHex_inj by blast
  have win: "generateRandomPipeName env = pipeDir @ ''vscode-jsonrpc-'' @ ?hex @ ''-sock''
        \<and> windowsForm 42 (generateRandomPipeName env)" if "platform env = ''win32''"
  proof -
    have "generateRandomPipeName env = pipeDir @ ''vscode-jsonrpc-'' @ ?hex @ ''-sock''"
      using that by (simp add: generateRandomPipeName_def Let_def)
    then show ?thesis using windowsForm_42 [OF len hex] by simp
  qed
  have other: "generateRandomPipeName env = path_join [tmpdir env, ''vscode-'' @ ?hex @ ''.sock'']"
    if "platform env \<noteq> ''win32''"
    using that by (simp add: generateRandomPipeName_def Let_def)
  have posix: "generateRandomPipeName env = tmpdir env @ ''/vscode-'' @ ?hex @ ''.sock''
        \<and> posixForm 42 (tmpdir env) (generateRandomPipeName env)"
    if "platform env \<noteq> ''win32'' \<and> tmpdir env = absolutePath segs \<and> segs \<noteq> []
        \<and> list_all plainSegment segs"
  proof -
    from that have p: "platform env \<noteq> ''win32''" and t: "tmpdir env = absolutePath segs"
      and s: "segs \<noteq> []" and a: "list_all plainSegment segs" by simp_all
    have "path_join [absolutePath segs, ''vscode-'' @ ?hex @ ''.sock'']
          = absolutePath segs @ CHR ''/'' # (''vscode-'' @ ?hex @ ''.sock'')"
      using s a sockName_plain [OF hex] by (rule path_join_plain)
    then have "generateRandomPipeName env = tmpdir env @ ''/vscode-'' @ ?hex @ ''.sock''"
      using other [OF p] t by simp
    then show ?thesis using posixForm_42 [OF len hex, of "tmpdir env"] by simp
  qed
  show ?thesis using len hex inj win other posix by blast
qed

theorem pipe_name_format_witness:
  "platform \<lparr>platform = ''win32'', tmpdir = ''/tmp'', entropy = of_nat\<rparr> = ''win32''
   \<and> windowsForm 42
       (generateRandomPipeName \<lparr>platform = ''win32'', tmpdir = ''/tmp'', entropy = of_nat\<rparr>)
   \<and> platform \<lparr>platform = ''linux'', tmpdir = ''/tmp'', entropy = of_nat\<rparr> \<noteq> ''win32''
   \<and> tmpdir \<lparr>platform = ''linux'', tmpdir = ''/tmp'', entropy = of_nat\<rparr> = absolutePath [''tmp'']
   \<and> list_all plainSegment [''tmp'']
   \<and> generateRandomPipeName \<lparr>platform = ''linux'', tmpdir = ''/tmp'', entropy = of_nat\<rparr>
       = ''/tmp/vscode-'' @ toHex (randomBytes of_nat 21) @ ''.sock''
   \<and> posixForm 42 ''/tmp''
       (generateRandomPipeName \<lparr>platform = ''linux'', tmpdir = ''/tmp'', entropy = of_nat\<rparr>)"
proof -
  let ?w = "\<lparr>platform = ''win32'', tmpdir = ''/tmp'', entropy = of_nat\<rparr>"
  let ?l = "\<lparr>platform = ''linux'', tmpdir = ''/tmp'', entropy = of_nat\<rparr>"
  have a: "platform ?w = ''win32''" by simp
  have b1: "platform ?l \<noteq> ''win32''" by simp
  have b2: "tmpdir ?l = absolutePath [''tmp'']" by (simp add: absolutePath_def)
  have b3: "[''tmp''] \<noteq> []" by simp
  have b4: "list_all plainSegment [''tmp'']" by (simp add: plainSegment_def)
  have w: "windowsForm 42 (generateRandomPipeName ?w)"
    using pipe_name_format [of ?w ?w "[''tmp'']"] a by blast
  have both: "generateRandomPipeName ?l
          = tmpdir ?l @ ''/vscode-'' @ toHex (randomBytes (entropy ?l) 21) @ ''.sock''
        \<and> posixForm 42 (tmpdir ?l) (generateRandomPipeName ?l)"
    using pipe_name_format [of ?l ?l "[''tmp'']"] b1 b2 b3 b4 by blast
  have l1: "generateRandomPipeName ?l = ''/tmp/vscode-'' @ toHex (randomBytes of_nat 21) @ ''.sock''"
    using both [THEN conjunct1] by simp
  have l2: "posixForm 42 ''/tmp'' (generateRandomPipeName ?l)"
    using both [THEN conjunct2] by simp
  show ?thesis using a w b1 b2 b4 l1 l2 by blast
qed

end
